theory Spec2Isabelle
  imports Complex_Main
begin

section \<open>JavaScript numbers\<close>

text \<open>
  The route handlers compute with JavaScript numbers. A number is modelled as a finite
  value, one of the two infinities, or NaN. Finite values are real numbers: the
  arithmetic on them is exact (no rounding error, no overflow, one zero, which stands
  for \<open>+0\<close>), and \<open>Math.PI\<close> is \<open>pi\<close>. The special values follow ECMAScript:
  a division by zero gives an infinity or NaN, a square root of a negative number gives
  NaN, every comparison with NaN is false, and \<open>Math.min\<close>/\<open>Math.max\<close> return NaN
  as soon as one argument is NaN. What is proved below is proved of this exact
  arithmetic; the rounding of double-precision operations is not part of the model.

  The exact arithmetic and the doubles of the runtime part ways in three places that
  matter here. First, the haversine term \<open>a\<close> is at most 1 in exact arithmetic, but for
  some antipodal pairs of valid coordinates the rounded sum of the rounded products is
  \<open>1 + 2\<^sup>-\<^sup>5\<^sup>2\<close>, so that \<open>Math.sqrt(1 - a)\<close> and with it the distance are NaN.
  Second, \<open>Math.round(d * 100) / 100\<close> rounds the rounded product and \<open>d.toFixed(2)\<close>
  rounds \<open>d\<close> itself: for the double nearest 0.015 the first gives 0.02, the second 0.01.
  Third, a quotient may fall on the other side of a tie: \<open>(4.0 - 3.7) / 4.0 * 100\<close> is
  \<open>7.499999999999996\<close> in doubles and \<open>7.5\<close> exactly. The concrete evaluations below are
  made at inputs where the two arithmetics give the same result.
\<close>

datatype jsnum = Fin real | PInf | NInf | NaN

fun js_neg :: "jsnum \<Rightarrow> jsnum" where
  "js_neg (Fin a) = Fin (- a)"
| "js_neg PInf = NInf"
| "js_neg NInf = PInf"
| "js_neg NaN = NaN"

fun js_add :: "jsnum \<Rightarrow> jsnum \<Rightarrow> jsnum" where
  "js_add (Fin a) (Fin b) = Fin (a + b)"
| "js_add NaN y = NaN"
| "js_add x NaN = NaN"
| "js_add PInf NInf = NaN"
| "js_add NInf PInf = NaN"
| "js_add PInf y = PInf"
| "js_add NInf y = NInf"
| "js_add x PInf = PInf"
| "js_add x NInf = NInf"

definition js_sub :: "jsnum \<Rightarrow> jsnum \<Rightarrow> jsnum" where
  "js_sub x y = js_add x (js_neg y)"

text \<open>The sign of an infinity scaled by a finite factor; zero times infinity is NaN.\<close>

definition scale_inf :: "jsnum \<Rightarrow> real \<Rightarrow> jsnum" where
  "scale_inf i a = (if a = 0 then NaN else if 0 < a then i else js_neg i)"

fun js_mul :: "jsnum \<Rightarrow> jsnum \<Rightarrow> jsnum" where
  "js_mul (Fin a) (Fin b) = Fin (a * b)"
| "js_mul NaN y = NaN"
| "js_mul x NaN = NaN"
| "js_mul (Fin a) y = scale_inf y a"
| "js_mul x (Fin b) = scale_inf x b"
| "js_mul PInf y = y"
| "js_mul NInf y = js_neg y"

fun js_div :: "jsnum \<Rightarrow> jsnum \<Rightarrow> jsnum" where
  "js_div (Fin a) (Fin b) =
     (if b = 0 then (if a = 0 then NaN else if 0 < a then PInf else NInf)
      else Fin (a / b))"
| "js_div NaN y = NaN"
| "js_div x NaN = NaN"
| "js_div (Fin a) y = Fin 0"
| "js_div x (Fin b) = (if 0 \<le> b then x else js_neg x)"
| "js_div x y = NaN"

fun js_le :: "jsnum \<Rightarrow> jsnum \<Rightarrow> bool" where
  "js_le (Fin a) (Fin b) = (a \<le> b)"
| "js_le NaN y = False"
| "js_le x NaN = False"
| "js_le NInf y = True"
| "js_le x PInf = True"
| "js_le x y = False"

definition js_ge :: "jsnum \<Rightarrow> jsnum \<Rightarrow> bool" where
  "js_ge x y = js_le y x"

fun js_lt :: "jsnum \<Rightarrow> jsnum \<Rightarrow> bool" where
  "js_lt (Fin a) (Fin b) = (a < b)"
| "js_lt NaN y = False"
| "js_lt x NaN = False"
| "js_lt NInf NInf = False"
| "js_lt PInf PInf = False"
| "js_lt NInf y = True"
| "js_lt x PInf = True"
| "js_lt x y = False"

text \<open>Strict equality \<open>===\<close> of two numbers: NaN is not equal to itself.\<close>

definition js_eq :: "jsnum \<Rightarrow> jsnum \<Rightarrow> bool" where
  "js_eq x y = (x \<noteq> NaN \<and> x = y)"

text \<open>\<open>Math.min\<close> and \<open>Math.max\<close> of two numbers.\<close>

definition js_min :: "jsnum \<Rightarrow> jsnum \<Rightarrow> jsnum" where
  "js_min x y = (if x = NaN \<or> y = NaN then NaN else if js_le x y then x else y)"

definition js_max :: "jsnum \<Rightarrow> jsnum \<Rightarrow> jsnum" where
  "js_max x y = (if x = NaN \<or> y = NaN then NaN else if js_le x y then y else x)"

text \<open>\<open>Math.round\<close> rounds to the nearest integer, a tie upwards; \<open>Math.ceil\<close>.\<close>

fun js_round :: "jsnum \<Rightarrow> jsnum" where
  "js_round (Fin a) = Fin (of_int \<lfloor>a + 1 / 2\<rfloor>)"
| "js_round x = x"

fun js_ceil :: "jsnum \<Rightarrow> jsnum" where
  "js_ceil (Fin a) = Fin (of_int \<lceil>a\<rceil>)"
| "js_ceil x = x"

fun js_sin :: "jsnum \<Rightarrow> jsnum" where
  "js_sin (Fin a) = Fin (sin a)"
| "js_sin x = NaN"

fun js_cos :: "jsnum \<Rightarrow> jsnum" where
  "js_cos (Fin a) = Fin (cos a)"
| "js_cos x = NaN"

fun js_sqrt :: "jsnum \<Rightarrow> jsnum" where
  "js_sqrt (Fin a) = (if a < 0 then NaN else Fin (sqrt a))"
| "js_sqrt PInf = PInf"
| "js_sqrt x = NaN"

text \<open>\<open>Math.atan2(y, x)\<close>: the angle of the point \<open>(x, y)\<close>, in \<open>(-pi, pi]\<close>.\<close>

definition atan2 :: "real \<Rightarrow> real \<Rightarrow> real" where
  "atan2 y x =
     (if 0 < x then arctan (y / x)
      else if x < 0 then (if 0 \<le> y then arctan (y / x) + pi else arctan (y / x) - pi)
      else if 0 < y then pi / 2
      else if y < 0 then - (pi / 2)
      else 0)"

fun js_atan2 :: "jsnum \<Rightarrow> jsnum \<Rightarrow> jsnum" where
  "js_atan2 (Fin y) (Fin x) = Fin (atan2 y x)"
| "js_atan2 NaN x = NaN"
| "js_atan2 y NaN = NaN"
| "js_atan2 (Fin y) PInf = Fin 0"
| "js_atan2 (Fin y) NInf = (if 0 \<le> y then Fin pi else Fin (- pi))"
| "js_atan2 PInf (Fin x) = Fin (pi / 2)"
| "js_atan2 NInf (Fin x) = Fin (- (pi / 2))"
| "js_atan2 PInf PInf = Fin (pi / 4)"
| "js_atan2 PInf NInf = Fin (3 * pi / 4)"
| "js_atan2 NInf PInf = Fin (- (pi / 4))"
| "js_atan2 NInf NInf = Fin (- (3 * pi / 4))"

text \<open>Truthiness of a number: \<open>0\<close> and NaN are falsy.\<close>

fun truthy_num :: "jsnum \<Rightarrow> bool" where
  "truthy_num (Fin a) = (a \<noteq> 0)"
| "truthy_num NaN = False"
| "truthy_num x = True"

text \<open>A nullable numeric column: \<open>None\<close> is SQL NULL, which is falsy.\<close>

fun truthy :: "jsnum option \<Rightarrow> bool" where
  "truthy None = False"
| "truthy (Some x) = truthy_num x"

section \<open>Great-circle distance\<close>

text \<open>
  Four route files carry their own copy of \<open>calculateDistance\<close>. Each is given here
  under the name of its route: the delivery estimate (orders/estimate-delivery), the
  nearby-pharmacy search, the stock check (inventory/check-stock) and the delivery
  tracking. The first two round the result to two decimals, the tracking copy to one,
  and the stock-check copy returns the unrounded value, which its call site rounds
  with \<open>toFixed(2)\<close>.
\<close>

definition calculateDistance_estimate :: "jsnum \<Rightarrow> jsnum \<Rightarrow> jsnum \<Rightarrow> jsnum \<Rightarrow> jsnum" where
  "calculateDistance_estimate lat1 lon1 lat2 lon2 =
     (let R = Fin 6371;
          dLat = js_div (js_mul (js_sub lat2 lat1) (Fin pi)) (Fin 180);
          dLon = js_div (js_mul (js_sub lon2 lon1) (Fin pi)) (Fin 180);
          a = js_add
                (js_mul (js_sin (js_div dLat (Fin 2))) (js_sin (js_div dLat (Fin 2))))
                (js_mul
                  (js_mul
                    (js_mul (js_cos (js_div (js_mul lat1 (Fin pi)) (Fin 180)))
                            (js_cos (js_div (js_mul lat2 (Fin pi)) (Fin 180))))
                    (js_sin (js_div dLon (Fin 2))))
                  (js_sin (js_div dLon (Fin 2))));
          c = js_mul (Fin 2) (js_atan2 (js_sqrt a) (js_sqrt (js_sub (Fin 1) a)));
          distance = js_mul R c
      in js_div (js_round (js_mul distance (Fin 100))) (Fin 100))"

definition calculateDistance_nearby :: "jsnum \<Rightarrow> jsnum \<Rightarrow> jsnum \<Rightarrow> jsnum \<Rightarrow> jsnum" where
  "calculateDistance_nearby lat1 lon1 lat2 lon2 =
     (let R = Fin 6371;
          dLat = js_div (js_mul (js_sub lat2 lat1) (Fin pi)) (Fin 180);
          dLon = js_div (js_mul (js_sub lon2 lon1) (Fin pi)) (Fin 180);
          a = js_add
                (js_mul (js_sin (js_div dLat (Fin 2))) (js_sin (js_div dLat (Fin 2))))
                (js_mul
                  (js_mul
                    (js_mul (js_cos (js_div (js_mul lat1 (Fin pi)) (Fin 180)))
                            (js_cos (js_div (js_mul lat2 (Fin pi)) (Fin 180))))
                    (js_sin (js_div dLon (Fin 2))))
                  (js_sin (js_div dLon (Fin 2))));
          c = js_mul (Fin 2) (js_atan2 (js_sqrt a) (js_sqrt (js_sub (Fin 1) a)));
          distance = js_mul R c
      in js_div (js_round (js_mul distance (Fin 100))) (Fin 100))"

definition calculateDistance_stock :: "jsnum \<Rightarrow> jsnum \<Rightarrow> jsnum \<Rightarrow> jsnum \<Rightarrow> jsnum" where
  "calculateDistance_stock lat1 lon1 lat2 lon2 =
     (let R = Fin 6371;
          dLat = js_div (js_mul (js_sub lat2 lat1) (Fin pi)) (Fin 180);
          dLon = js_div (js_mul (js_sub lon2 lon1) (Fin pi)) (Fin 180);
          a = js_add
                (js_mul (js_sin (js_div dLat (Fin 2))) (js_sin (js_div dLat (Fin 2))))
                (js_mul
                  (js_mul
                    (js_mul (js_cos (js_div (js_mul lat1 (Fin pi)) (Fin 180)))
                            (js_cos (js_div (js_mul lat2 (Fin pi)) (Fin 180))))
                    (js_sin (js_div dLon (Fin 2))))
                  (js_sin (js_div dLon (Fin 2))));
          c = js_mul (Fin 2) (js_atan2 (js_sqrt a) (js_sqrt (js_sub (Fin 1) a)))
      in js_mul R c)"

definition calculateDistance_tracking :: "jsnum \<Rightarrow> jsnum \<Rightarrow> jsnum \<Rightarrow> jsnum \<Rightarrow> jsnum" where
  "calculateDistance_tracking lat1 lon1 lat2 lon2 =
     (let R = Fin 6371;
          dLat = js_div (js_mul (js_sub lat2 lat1) (Fin pi)) (Fin 180);
          dLon = js_div (js_mul (js_sub lon2 lon1) (Fin pi)) (Fin 180);
          a = js_add
                (js_mul (js_sin (js_div dLat (Fin 2))) (js_sin (js_div dLat (Fin 2))))
                (js_mul
                  (js_mul
                    (js_mul (js_cos (js_div (js_mul lat1 (Fin pi)) (Fin 180)))
                            (js_cos (js_div (js_mul lat2 (Fin pi)) (Fin 180))))
                    (js_sin (js_div dLon (Fin 2))))
                  (js_sin (js_div dLon (Fin 2))));
          c = js_mul (Fin 2) (js_atan2 (js_sqrt a) (js_sqrt (js_sub (Fin 1) a)));
          distance = js_mul R c
      in js_div (js_round (js_mul distance (Fin 10))) (Fin 10))"

text \<open>
  \<open>parseFloat(x.toFixed(2))\<close>: \<open>toFixed\<close> prints the sign and then the magnitude
  rounded to the nearest hundredth, a tie going to the larger magnitude; from
  \<open>10\<^sup>2\<^sup>1\<close> on it prints the number as \<open>String\<close> does, and \<open>parseFloat\<close> reads
  the printed value back.
\<close>

fun toFixed2 :: "jsnum \<Rightarrow> jsnum" where
  "toFixed2 (Fin x) =
     (if 10 ^ 21 \<le> \<bar>x\<bar> then Fin x
      else if x < 0 then Fin (- (of_int \<lfloor>- x * 100 + 1 / 2\<rfloor> / 100))
      else Fin (of_int \<lfloor>x * 100 + 1 / 2\<rfloor> / 100))"
| "toFixed2 x = x"

text \<open>The \<open>distance\<close> field of a stock-check item, as the call site computes it.\<close>

definition stock_item_distance :: "jsnum \<Rightarrow> jsnum \<Rightarrow> jsnum \<Rightarrow> jsnum \<Rightarrow> jsnum" where
  "stock_item_distance userLatitude userLongitude latitude longitude =
     (let distance = calculateDistance_stock userLatitude userLongitude latitude longitude
      in toFixed2 distance)"

text \<open>
  The haversine formula as the specification words it: the great-circle distance on a
  sphere of radius 6371 km between two points given in decimal degrees, from the
  haversine of the central angle.
\<close>

definition hav_central :: "real \<Rightarrow> real \<Rightarrow> real \<Rightarrow> real \<Rightarrow> real" where
  "hav_central lat1 lon1 lat2 lon2 =
     (sin ((lat2 - lat1) * pi / 180 / 2))\<^sup>2 +
     cos (lat1 * pi / 180) * cos (lat2 * pi / 180) * (sin ((lon2 - lon1) * pi / 180 / 2))\<^sup>2"

definition haversine_spec :: "real \<Rightarrow> real \<Rightarrow> real \<Rightarrow> real \<Rightarrow> real" where
  "haversine_spec lat1 lon1 lat2 lon2 =
     2 * 6371 * arcsin (sqrt (hav_central lat1 lon1 lat2 lon2))"

definition round_dp :: "nat \<Rightarrow> real \<Rightarrow> real" where
  "round_dp k x = of_int (round (x * 10 ^ k)) / 10 ^ k"

text \<open>A non-negative (finite) number.\<close>

fun nonneg_number :: "jsnum \<Rightarrow> bool" where
  "nonneg_number (Fin x) = (0 \<le> x)"
| "nonneg_number x = False"

text \<open>The ranges the callers validate.\<close>

definition validateLatitude :: "jsnum \<Rightarrow> bool" where
  "validateLatitude lat = (js_ge lat (Fin (- 90)) \<and> js_le lat (Fin 90))"

definition validateLongitude :: "jsnum \<Rightarrow> bool" where
  "validateLongitude lon = (js_ge lon (Fin (- 180)) \<and> js_le lon (Fin 180))"

section \<open>Delivery estimate: travel time and fee (orders/estimate-delivery)\<close>

definition calculateTravelTime :: "jsnum \<Rightarrow> jsnum" where
  "calculateTravelTime distance =
     (if js_le distance (Fin 2) then Fin 10
      else if js_le distance (Fin 5) then Fin 20
      else if js_le distance (Fin 10) then Fin 35
      else if js_le distance (Fin 20) then Fin 60
      else Fin 90)"

definition calculateDeliveryFee :: "jsnum \<Rightarrow> jsnum" where
  "calculateDeliveryFee distance =
     (if js_le distance (Fin 2) then Fin 2
      else if js_le distance (Fin 5) then Fin (7 / 2)
      else if js_le distance (Fin 10) then Fin 5
      else if js_le distance (Fin 20) then Fin (15 / 2)
      else Fin 10)"

section \<open>Delivery tracking: estimated time of arrival (tracking GET)\<close>

definition calculateETA :: "jsnum \<Rightarrow> jsnum" where
  "calculateETA distanceKm = js_ceil (js_mul distanceKm (Fin 5))"

section \<open>Rows, requests and responses\<close>

text \<open>
  The columns of the three tables the two handlers read. A nullable column is an
  option; a text column is a string. The pharmacy coordinates are declared NOT NULL in
  the schema; they are options here so that the handler's own test of them can be
  stated for a null as well. Arithmetic on a null reads it as \<open>0\<close>.
\<close>

record order_row =
  o_id :: int
  o_pharmacyId :: int
  o_orderNumber :: string
  o_status :: string
  o_createdAt :: string
  o_deliveryLatitude :: "jsnum option"
  o_deliveryLongitude :: "jsnum option"

record delivery_row =
  d_orderId :: int
  d_status :: string
  d_currentLatitude :: "jsnum option"
  d_currentLongitude :: "jsnum option"
  d_assignedAt :: "string option"
  d_pickedUpAt :: "string option"
  d_deliveredAt :: "string option"

record pharmacy_row =
  p_id :: int
  p_pharmacyName :: string
  p_address :: string
  p_latitude :: "jsnum option"
  p_longitude :: "jsnum option"

record database =
  orders :: "order_row list"
  delivery :: "delivery_row list"
  pharmacies :: "pharmacy_row list"

fun to_number :: "jsnum option \<Rightarrow> jsnum" where
  "to_number None = Fin 0"
| "to_number (Some x) = x"

text \<open>Truthiness of a nullable text: null and the empty string are falsy.\<close>

fun truthy_text :: "string option \<Rightarrow> bool" where
  "truthy_text None = False"
| "truthy_text (Some s) = (s \<noteq> [])"

text \<open>
  A time in a response: null, the ISO rendering of an instant (kept as its millisecond
  count), or a text column as stored.
\<close>

datatype timestamp = TNull | TInstant real | TText string

fun stored_time :: "string option \<Rightarrow> timestamp" where
  "stored_time None = TNull"
| "stored_time (Some s) = TText s"

text \<open>
  \<open>new Date(t).toISOString()\<close>: the time value is clipped to a whole number of
  milliseconds; NaN, an infinity or a magnitude above \<open>8.64e15\<close> is an invalid date,
  for which \<open>toISOString\<close> throws a RangeError (\<open>None\<close>).
\<close>

fun toISOString :: "jsnum \<Rightarrow> timestamp option" where
  "toISOString (Fin t) =
     (if 8640000000000000 < \<bar>t\<bar> then None
      else Some (TInstant (of_int (if 0 \<le> t then \<lfloor>t\<rfloor> else \<lceil>t\<rceil>))))"
| "toISOString x = None"

text \<open>
  A JSON response: status 200 with a body, or an error status with its \<open>code\<close>
  (the status 500 of the catch-all handler carries no code).
\<close>

datatype 'a response = Json200 'a | JsonError nat "string option"

section \<open>Delivery tracking (tracking GET)\<close>

definition calculateProgress ::
  "jsnum \<Rightarrow> jsnum \<Rightarrow> jsnum option \<Rightarrow> jsnum option \<Rightarrow> jsnum \<Rightarrow> jsnum \<Rightarrow> jsnum" where
  "calculateProgress pharmacyLat pharmacyLon currentLat currentLon destLat destLon =
     (if \<not> truthy currentLat \<or> \<not> truthy currentLon then Fin 0
      else
        let totalDistance = calculateDistance_tracking pharmacyLat pharmacyLon destLat destLon;
            remainingDistance =
              calculateDistance_tracking (to_number currentLat) (to_number currentLon) destLat destLon
        in if js_eq totalDistance (Fin 0) then Fin 100
           else
             let progress =
                   js_mul (js_div (js_sub totalDistance remainingDistance) totalDistance) (Fin 100)
             in js_max (Fin 0) (js_min (Fin 100) (js_round progress)))"

record tracking =
  tracking_currentDistance :: "jsnum option"
  tracking_estimatedTimeRemaining :: "jsnum option"
  tracking_progressPercentage :: jsnum
  timeline_estimatedDelivery :: timestamp

text \<open>
  The tracking computation of the handler, from the three rows it has fetched.
  \<open>getTime s\<close> stands for \<open>new Date(s).getTime()\<close> (NaN for a text that is not a
  date) and \<open>now\<close> for the clock, in milliseconds. The result is \<open>None\<close> where
  \<open>toISOString\<close> throws.
\<close>

definition trackDelivery ::
  "(string \<Rightarrow> jsnum) \<Rightarrow> int \<Rightarrow> order_row \<Rightarrow> delivery_row \<Rightarrow> pharmacy_row \<Rightarrow> tracking option" where
  "trackDelivery getTime now order deliveryRecord pharmacy =
     (let destLat = o_deliveryLatitude order;
          destLon = o_deliveryLongitude order
      in
      if truthy destLat \<and> truthy destLon then
        if truthy (d_currentLatitude deliveryRecord) \<and> truthy (d_currentLongitude deliveryRecord) then
          let currentDistance =
                calculateDistance_tracking
                  (to_number (d_currentLatitude deliveryRecord))
                  (to_number (d_currentLongitude deliveryRecord))
                  (to_number destLat) (to_number destLon);
              estimatedTimeRemaining = calculateETA currentDistance;
              progressPercentage =
                calculateProgress
                  (to_number (p_latitude pharmacy)) (to_number (p_longitude pharmacy))
                  (d_currentLatitude deliveryRecord) (d_currentLongitude deliveryRecord)
                  (to_number destLat) (to_number destLon)
          in map_option
               (\<lambda>estimatedDeliveryTime.
                  \<lparr>tracking_currentDistance = Some currentDistance,
                   tracking_estimatedTimeRemaining = Some estimatedTimeRemaining,
                   tracking_progressPercentage = progressPercentage,
                   timeline_estimatedDelivery = estimatedDeliveryTime\<rparr>)
               (toISOString
                  (js_add (Fin (of_int now)) (js_mul estimatedTimeRemaining (Fin 60000))))
        else if d_status deliveryRecord = ''assigned'' \<or> d_status deliveryRecord = ''accepted'' then
          let currentDistance =
                calculateDistance_tracking
                  (to_number (p_latitude pharmacy)) (to_number (p_longitude pharmacy))
                  (to_number destLat) (to_number destLon);
              estimatedTimeRemaining = calculateETA currentDistance
          in map_option
               (\<lambda>estimatedDeliveryTime.
                  \<lparr>tracking_currentDistance = Some currentDistance,
                   tracking_estimatedTimeRemaining = Some estimatedTimeRemaining,
                   tracking_progressPercentage = Fin 0,
                   timeline_estimatedDelivery = estimatedDeliveryTime\<rparr>)
               (toISOString
                  (js_add (Fin (of_int now)) (js_mul estimatedTimeRemaining (Fin 60000))))
        else if d_status deliveryRecord = ''picked_up'' \<or> d_status deliveryRecord = ''on_the_way'' then
          let currentDistance =
                calculateDistance_tracking
                  (to_number (p_latitude pharmacy)) (to_number (p_longitude pharmacy))
                  (to_number destLat) (to_number destLon);
              estimatedTimeRemaining = calculateETA currentDistance;
              timeSincePickup =
                (case d_pickedUpAt deliveryRecord of
                   None \<Rightarrow> Fin 0
                 | Some pickedUpAt \<Rightarrow>
                     if pickedUpAt = [] then Fin 0
                     else js_div (js_sub (Fin (of_int now)) (getTime pickedUpAt)) (Fin 60000));
              progressPercentage =
                js_min (Fin 50)
                  (js_round (js_mul (js_div timeSincePickup estimatedTimeRemaining) (Fin 100)))
          in map_option
               (\<lambda>estimatedDeliveryTime.
                  \<lparr>tracking_currentDistance = Some currentDistance,
                   tracking_estimatedTimeRemaining = Some estimatedTimeRemaining,
                   tracking_progressPercentage = progressPercentage,
                   timeline_estimatedDelivery = estimatedDeliveryTime\<rparr>)
               (toISOString
                  (js_add (Fin (of_int now)) (js_mul estimatedTimeRemaining (Fin 60000))))
        else if d_status deliveryRecord = ''delivered'' then
          Some \<lparr>tracking_currentDistance = Some (Fin 0),
                tracking_estimatedTimeRemaining = Some (Fin 0),
                tracking_progressPercentage = Fin 100,
                timeline_estimatedDelivery = stored_time (d_deliveredAt deliveryRecord)\<rparr>
        else
          Some \<lparr>tracking_currentDistance = None,
                tracking_estimatedTimeRemaining = None,
                tracking_progressPercentage = Fin 0,
                timeline_estimatedDelivery = TNull\<rparr>
      else
        Some \<lparr>tracking_currentDistance = None,
              tracking_estimatedTimeRemaining = None,
              tracking_progressPercentage = Fin 0,
              timeline_estimatedDelivery = TNull\<rparr>)"

text \<open>
  The body of the tracking response. The name, address and contact fields, copied from
  the rows (and from the delivery person's user row), are left out; the destination
  location is the pair of coordinates when both are truthy and null otherwise.
\<close>

record tracking_response =
  resp_orderId :: int
  resp_orderNumber :: string
  resp_deliveryStatus :: string
  resp_orderStatus :: string
  resp_destinationLocation :: "(jsnum \<times> jsnum) option"
  resp_tracking :: tracking

text \<open>
  The lookups that open the handler: the order by \<open>orderId\<close> (when that parameter is
  present and not empty) or else by \<open>orderNumber\<close>, then its delivery row and its
  pharmacy row, each \<open>limit(1)\<close>. \<open>parseInt\<close> is the runtime's, \<open>None\<close> for NaN.
\<close>

definition lookupRows ::
  "(string \<Rightarrow> int option) \<Rightarrow> database \<Rightarrow> string option \<Rightarrow> string option \<Rightarrow>
   (nat \<times> string) + (order_row \<times> delivery_row \<times> pharmacy_row)" where
  "lookupRows parseInt db orderId orderNumber =
     (if \<not> truthy_text orderId \<and> \<not> truthy_text orderNumber then
        Inl (400, ''MISSING_REQUIRED_PARAMETER'')
      else
        case (if truthy_text orderId then
                (case parseInt (case orderId of Some s \<Rightarrow> s | None \<Rightarrow> []) of
                   None \<Rightarrow> None
                 | Some parsedOrderId \<Rightarrow>
                     Some (filter (\<lambda>r. o_id r = parsedOrderId) (orders db)))
              else Some (filter (\<lambda>r. Some (o_orderNumber r) = orderNumber) (orders db)))
        of
          None \<Rightarrow> Inl (400, ''INVALID_ORDER_ID'')
        | Some [] \<Rightarrow> Inl (404, ''ORDER_NOT_FOUND'')
        | Some (order # _) \<Rightarrow>
            (case filter (\<lambda>r. d_orderId r = o_id order) (delivery db) of
               [] \<Rightarrow> Inl (404, ''DELIVERY_NOT_FOUND'')
             | deliveryRecord # _ \<Rightarrow>
                 (case filter (\<lambda>r. p_id r = o_pharmacyId order) (pharmacies db) of
                    [] \<Rightarrow> Inl (404, ''PHARMACY_NOT_FOUND'')
                  | pharmacy # _ \<Rightarrow> Inr (order, deliveryRecord, pharmacy))))"

definition GET_tracking ::
  "(string \<Rightarrow> int option) \<Rightarrow> (string \<Rightarrow> jsnum) \<Rightarrow> int \<Rightarrow> database \<Rightarrow>
   string option \<Rightarrow> string option \<Rightarrow> tracking_response response" where
  "GET_tracking parseInt getTime now db orderId orderNumber =
     (case lookupRows parseInt db orderId orderNumber of
        Inl (status, code) \<Rightarrow> JsonError status (Some code)
      | Inr (order, deliveryRecord, pharmacy) \<Rightarrow>
          (case trackDelivery getTime now order deliveryRecord pharmacy of
             None \<Rightarrow> JsonError 500 None
           | Some t \<Rightarrow>
               Json200
                 \<lparr>resp_orderId = o_id order,
                  resp_orderNumber = o_orderNumber order,
                  resp_deliveryStatus = d_status deliveryRecord,
                  resp_orderStatus = o_status order,
                  resp_destinationLocation =
                    (if truthy (o_deliveryLatitude order) \<and> truthy (o_deliveryLongitude order)
                     then Some (to_number (o_deliveryLatitude order),
                                to_number (o_deliveryLongitude order))
                     else None),
                  resp_tracking = t\<rparr>))"

text \<open>A progress value that is a number between 0 and 100.\<close>

fun percentage :: "jsnum \<Rightarrow> bool" where
  "percentage (Fin x) = (0 \<le> x \<and> x \<le> 100)"
| "percentage x = False"

section \<open>Delivery estimate (orders/estimate-delivery POST)\<close>

text \<open>
  A field of the parsed request body. \<open>JOther\<close> stands for an object or an array,
  which is truthy; \<open>JUndefined\<close> for a field that is absent.
\<close>

datatype jsval = JUndefined | JNull | JBool bool | JNum jsnum | JStr string | JOther

fun truthy_val :: "jsval \<Rightarrow> bool" where
  "truthy_val JUndefined = False"
| "truthy_val JNull = False"
| "truthy_val (JBool b) = b"
| "truthy_val (JNum n) = truthy_num n"
| "truthy_val (JStr s) = (s \<noteq> [])"
| "truthy_val JOther = True"

record estimate_body =
  body_pharmacyId :: jsval
  body_deliveryLatitude :: jsval
  body_deliveryLongitude :: jsval

record estimate =
  est_pharmacyId :: int
  est_pharmacyName :: string
  est_pharmacyAddress :: string
  est_pharmacyLocation :: "jsnum option \<times> jsnum option"
  est_deliveryLocation :: "jsnum \<times> jsnum"
  est_distance :: jsnum
  est_estimatedDeliveryTime :: jsnum
  est_preparationTime :: jsnum
  est_travelTime :: jsnum
  est_bufferTime :: jsnum
  est_deliveryFee :: jsnum
  est_estimatedDeliveryAt :: timestamp

text \<open>
  The handler. \<open>parseInt\<close> and \<open>parseFloat\<close> are the runtime's, applied to a body
  field (\<open>None\<close> is the NaN of \<open>parseInt\<close>); the request is \<open>None\<close> when
  \<open>request.json()\<close> throws or yields null, which the catch-all turns into a 500.
\<close>

definition POST_estimate ::
  "(jsval \<Rightarrow> int option) \<Rightarrow> (jsval \<Rightarrow> jsnum) \<Rightarrow> int \<Rightarrow> pharmacy_row list \<Rightarrow>
   estimate_body option \<Rightarrow> estimate response" where
  "POST_estimate parseInt parseFloat now pharmacies_table request =
     (case request of
        None \<Rightarrow> JsonError 500 None
      | Some body \<Rightarrow>
          let pharmacyId = body_pharmacyId body;
              deliveryLatitude = body_deliveryLatitude body;
              deliveryLongitude = body_deliveryLongitude body
          in
          if \<not> truthy_val pharmacyId then JsonError 400 (Some ''MISSING_PHARMACY_ID'')
          else if deliveryLatitude = JUndefined \<or> deliveryLatitude = JNull then
            JsonError 400 (Some ''MISSING_DELIVERY_LATITUDE'')
          else if deliveryLongitude = JUndefined \<or> deliveryLongitude = JNull then
            JsonError 400 (Some ''MISSING_DELIVERY_LONGITUDE'')
          else
            case parseInt pharmacyId of
              None \<Rightarrow> JsonError 400 (Some ''INVALID_PHARMACY_ID'')
            | Some parsedPharmacyId \<Rightarrow>
                let deliveryLat = parseFloat deliveryLatitude;
                    deliveryLon = parseFloat deliveryLongitude
                in
                if deliveryLat = NaN \<or> \<not> validateLatitude deliveryLat then
                  JsonError 400 (Some ''INVALID_LATITUDE'')
                else if deliveryLon = NaN \<or> \<not> validateLongitude deliveryLon then
                  JsonError 400 (Some ''INVALID_LONGITUDE'')
                else
                  case filter (\<lambda>r. p_id r = parsedPharmacyId) pharmacies_table of
                    [] \<Rightarrow> JsonError 404 (Some ''PHARMACY_NOT_FOUND'')
                  | pharmacyData # _ \<Rightarrow>
                      if \<not> truthy (p_latitude pharmacyData) \<or> \<not> truthy (p_longitude pharmacyData) then
                        JsonError 400 (Some ''PHARMACY_COORDINATES_MISSING'')
                      else
                        let distance =
                              calculateDistance_estimate
                                (to_number (p_latitude pharmacyData))
                                (to_number (p_longitude pharmacyData))
                                deliveryLat deliveryLon;
                            preparationTime = Fin 15;
                            travelTime = calculateTravelTime distance;
                            bufferTime = Fin 5;
                            estimatedDeliveryTime =
                              js_add (js_add preparationTime travelTime) bufferTime;
                            deliveryFee = calculateDeliveryFee distance
                        in
                        case toISOString
                               (js_add (Fin (of_int now)) (js_mul estimatedDeliveryTime (Fin 60000)))
                        of
                          None \<Rightarrow> JsonError 500 None
                        | Some estimatedDeliveryAt \<Rightarrow>
                            Json200
                              \<lparr>est_pharmacyId = p_id pharmacyData,
                               est_pharmacyName = p_pharmacyName pharmacyData,
                               est_pharmacyAddress = p_address pharmacyData,
                               est_pharmacyLocation =
                                 (p_latitude pharmacyData, p_longitude pharmacyData),
                               est_deliveryLocation = (deliveryLat, deliveryLon),
                               est_distance = distance,
                               est_estimatedDeliveryTime = estimatedDeliveryTime,
                               est_preparationTime = preparationTime,
                               est_travelTime = travelTime,
                               est_bufferTime = bufferTime,
                               est_deliveryFee = deliveryFee,
                               est_estimatedDeliveryAt = estimatedDeliveryAt\<rparr>)"

text \<open>Sample rows and runtime functions for the concrete evaluations below.\<close>

definition parseInt_number :: "jsval \<Rightarrow> int option" where
  "parseInt_number v = (case v of JNum (Fin x) \<Rightarrow> Some (if 0 \<le> x then \<lfloor>x\<rfloor> else \<lceil>x\<rceil>) | _ \<Rightarrow> None)"

definition parseFloat_number :: "jsval \<Rightarrow> jsnum" where
  "parseFloat_number v = (case v of JNum n \<Rightarrow> n | _ \<Rightarrow> NaN)"

definition equator_pharmacy :: pharmacy_row where
  "equator_pharmacy =
     \<lparr>p_id = 7, p_pharmacyName = ''Equator Pharmacy'', p_address = ''Quito'',
      p_latitude = Some (Fin 0), p_longitude = Some (Fin (- 157 / 2))\<rparr>"

definition equator_request :: estimate_body where
  "equator_request =
     \<lparr>body_pharmacyId = JNum (Fin 7), body_deliveryLatitude = JNum (Fin (1 / 10)),
      body_deliveryLongitude = JNum (Fin (- 157 / 2))\<rparr>"

definition corner_pharmacy :: pharmacy_row where
  "corner_pharmacy =
     \<lparr>p_id = 7, p_pharmacyName = ''Corner Pharmacy'', p_address = ''Main Street 1'',
      p_latitude = Some (Fin (25 / 2)), p_longitude = Some (Fin (155 / 2))\<rparr>"

definition corner_request :: estimate_body where
  "corner_request =
     \<lparr>body_pharmacyId = JNum (Fin 7), body_deliveryLatitude = JNum (Fin (63 / 5)),
      body_deliveryLongitude = JNum (Fin (155 / 2))\<rparr>"

definition parseInt_sample :: "string \<Rightarrow> int option" where
  "parseInt_sample s = (if s = ''1'' then Some 1 else None)"

definition getTime_sample :: "string \<Rightarrow> jsnum" where
  "getTime_sample s = (if s = ''2026-01-01T00:01:00.000Z'' then Fin 1767225660000 else NaN)"

text \<open>
  An order picked up at a pharmacy a tenth of a degree of latitude (some 11 km) south
  of its destination, with no live position, whose \<open>pickedUpAt\<close> lies one minute
  after the clock \<open>1767225600000\<close> (2026-01-01T00:00:00Z).
\<close>

definition early_pickup_db :: database where
  "early_pickup_db =
     \<lparr>orders =
        [\<lparr>o_id = 1, o_pharmacyId = 1, o_orderNumber = ''ORD-1'', o_status = ''picked_up'',
          o_createdAt = ''2025-12-31T23:00:00.000Z'',
          o_deliveryLatitude = Some (Fin (63 / 5)), o_deliveryLongitude = Some (Fin (155 / 2))\<rparr>],
      delivery =
        [\<lparr>d_orderId = 1, d_status = ''picked_up'',
          d_currentLatitude = None, d_currentLongitude = None,
          d_assignedAt = Some ''2025-12-31T23:30:00.000Z'',
          d_pickedUpAt = Some ''2026-01-01T00:01:00.000Z'', d_deliveredAt = None\<rparr>],
      pharmacies =
        [\<lparr>p_id = 1, p_pharmacyName = ''Corner Pharmacy'', p_address = ''Main Street 1'',
          p_latitude = Some (Fin (25 / 2)), p_longitude = Some (Fin (155 / 2))\<rparr>]\<rparr>"

text \<open>
  An order on its way to the pharmacy's own coordinates, with no live position and no
  \<open>pickedUpAt\<close>.
\<close>

definition doorstep_db :: database where
  "doorstep_db =
     \<lparr>orders =
        [\<lparr>o_id = 1, o_pharmacyId = 1, o_orderNumber = ''ORD-1'', o_status = ''out_for_delivery'',
          o_createdAt = ''2025-12-31T23:00:00.000Z'',
          o_deliveryLatitude = Some (Fin (25 / 2)), o_deliveryLongitude = Some (Fin (155 / 2))\<rparr>],
      delivery =
        [\<lparr>d_orderId = 1, d_status = ''on_the_way'',
          d_currentLatitude = None, d_currentLongitude = None,
          d_assignedAt = Some ''2025-12-31T23:30:00.000Z'',
          d_pickedUpAt = None, d_deliveredAt = None\<rparr>],
      pharmacies =
        [\<lparr>p_id = 1, p_pharmacyName = ''Corner Pharmacy'', p_address = ''Main Street 1'',
          p_latitude = Some (Fin (25 / 2)), p_longitude = Some (Fin (155 / 2))\<rparr>]\<rparr>"

text \<open>A delivered order; \<open>dest\<close> is the pair of destination columns of the order.\<close>

definition delivered_db :: "jsnum option \<times> jsnum option \<Rightarrow> database" where
  "delivered_db dest =
     \<lparr>orders =
        [\<lparr>o_id = 1, o_pharmacyId = 1, o_orderNumber = ''ORD-1'', o_status = ''delivered'',
          o_createdAt = ''2025-12-31T23:00:00.000Z'',
          o_deliveryLatitude = fst dest, o_deliveryLongitude = snd dest\<rparr>],
      delivery =
        [\<lparr>d_orderId = 1, d_status = ''delivered'',
          d_currentLatitude = None, d_currentLongitude = None,
          d_assignedAt = Some ''2025-12-31T23:30:00.000Z'',
          d_pickedUpAt = Some ''2025-12-31T23:40:00.000Z'',
          d_deliveredAt = Some ''2025-12-31T23:55:00.000Z''\<rparr>],
      pharmacies =
        [\<lparr>p_id = 1, p_pharmacyName = ''Corner Pharmacy'', p_address = ''Main Street 1'',
          p_latitude = Some (Fin (25 / 2)), p_longitude = Some (Fin (155 / 2))\<rparr>]\<rparr>"

text \<open>
  A delivered order whose delivery row still holds a live position, the one recorded
  at the pharmacy.
\<close>

definition delivered_live_db :: database where
  "delivered_live_db =
     \<lparr>orders =
        [\<lparr>o_id = 1, o_pharmacyId = 1, o_orderNumber = ''ORD-1'', o_status = ''delivered'',
          o_createdAt = ''2025-12-31T23:00:00.000Z'',
          o_deliveryLatitude = Some (Fin (63 / 5)), o_deliveryLongitude = Some (Fin (155 / 2))\<rparr>],
      delivery =
        [\<lparr>d_orderId = 1, d_status = ''delivered'',
          d_currentLatitude = Some (Fin (25 / 2)), d_currentLongitude = Some (Fin (155 / 2)),
          d_assignedAt = Some ''2025-12-31T23:30:00.000Z'',
          d_pickedUpAt = Some ''2025-12-31T23:40:00.000Z'',
          d_deliveredAt = Some ''2025-12-31T23:55:00.000Z''\<rparr>],
      pharmacies =
        [\<lparr>p_id = 1, p_pharmacyName = ''Corner Pharmacy'', p_address = ''Main Street 1'',
          p_latitude = Some (Fin (25 / 2)), p_longitude = Some (Fin (155 / 2))\<rparr>]\<rparr>"

section \<open>Properties of the lookups\<close>

text \<open>
  C4. The travel-time and the fee lookups are non-decreasing step functions of the
  distance: each takes one of five values, a greater distance never gives a smaller
  value, and the distances 2, 5, 10 and 20 km themselves fall in the lower bucket
  (10, 20, 35, 60 minutes; 2.00, 3.50, 5.00, 7.50).
\<close>

theorem lookups_monotone_steps:
  "(js_le d1 d2 \<longrightarrow>
      js_le (calculateTravelTime d1) (calculateTravelTime d2) \<and>
      js_le (calculateDeliveryFee d1) (calculateDeliveryFee d2)) \<and>
   calculateTravelTime d \<in> {Fin 10, Fin 20, Fin 35, Fin 60, Fin 90} \<and>
   calculateDeliveryFee d \<in> {Fin 2, Fin (7 / 2), Fin 5, Fin (15 / 2), Fin 10} \<and>
   calculateTravelTime (Fin 2) = Fin 10 \<and> calculateTravelTime (Fin 5) = Fin 20 \<and>
   calculateTravelTime (Fin 10) = Fin 35 \<and> calculateTravelTime (Fin 20) = Fin 60 \<and>
   calculateDeliveryFee (Fin 2) = Fin 2 \<and> calculateDeliveryFee (Fin 5) = Fin (7 / 2) \<and>
   calculateDeliveryFee (Fin 10) = Fin 5 \<and> calculateDeliveryFee (Fin 20) = Fin (15 / 2)"
proof -
  have mono: "js_le d1 d2 \<longrightarrow>
      js_le (calculateTravelTime d1) (calculateTravelTime d2) \<and>
      js_le (calculateDeliveryFee d1) (calculateDeliveryFee d2)"
    by (cases d1; cases d2) (simp_all add: calculateTravelTime_def calculateDeliveryFee_def)
  have range: "calculateTravelTime d \<in> {Fin 10, Fin 20, Fin 35, Fin 60, Fin 90} \<and>
      calculateDeliveryFee d \<in> {Fin 2, Fin (7 / 2), Fin 5, Fin (15 / 2), Fin 10}"
    by (simp add: calculateTravelTime_def calculateDeliveryFee_def)
  have bounds: "calculateTravelTime (Fin 2) = Fin 10 \<and> calculateTravelTime (Fin 5) = Fin 20 \<and>
      calculateTravelTime (Fin 10) = Fin 35 \<and> calculateTravelTime (Fin 20) = Fin 60 \<and>
      calculateDeliveryFee (Fin 2) = Fin 2 \<and> calculateDeliveryFee (Fin 5) = Fin (7 / 2) \<and>
      calculateDeliveryFee (Fin 10) = Fin 5 \<and> calculateDeliveryFee (Fin 20) = Fin (15 / 2)"
    by (simp add: calculateTravelTime_def calculateDeliveryFee_def)
  from mono range bounds show ?thesis by blast
qed

theorem lookups_monotone_steps_witness:
  "js_le (Fin 2) (Fin (41 / 20)) \<and>
   calculateTravelTime (Fin 2) = Fin 10 \<and> calculateTravelTime (Fin (41 / 20)) = Fin 20 \<and>
   js_le (calculateTravelTime (Fin 2)) (calculateTravelTime (Fin (41 / 20))) \<and>
   js_le (calculateDeliveryFee (Fin 2)) (calculateDeliveryFee (Fin (41 / 20)))"
proof -
  have h: "js_le (Fin 2) (Fin (41 / 20))" by simp
  have v: "calculateTravelTime (Fin 2) = Fin 10 \<and> calculateTravelTime (Fin (41 / 20)) = Fin 20"
    by (simp add: calculateTravelTime_def)
  from h v lookups_monotone_steps [of "Fin 2" "Fin (41 / 20)" "Fin 2"] show ?thesis
    by blast
qed

text \<open>
  C5. The two travel-time models disagree: at a distance of 1 km the stepped lookup of
  the delivery estimate gives 10 minutes and the linear model of the tracking endpoint
  gives 5, so the two functions are not equal.
\<close>

theorem travel_time_models_differ:
  "js_le (Fin 0) (Fin 1) \<and> calculateTravelTime (Fin 1) = Fin 10 \<and> calculateETA (Fin 1) = Fin 5 \<and>
   calculateTravelTime (Fin 1) \<noteq> calculateETA (Fin 1) \<and> calculateTravelTime \<noteq> calculateETA"
proof -
  have a: "calculateTravelTime (Fin 1) = Fin 10"
    by (simp add: calculateTravelTime_def)
  have b: "calculateETA (Fin 1) = Fin 5"
    by (simp add: calculateETA_def)
  from a b have "calculateTravelTime (Fin 1) \<noteq> calculateETA (Fin 1)" by simp
  then have "calculateTravelTime \<noteq> calculateETA" by metis
  with a b show ?thesis by simp
qed

section \<open>Properties of the distance\<close>

text \<open>
  In the exact arithmetic of the model the copies return the haversine distance,
  rounded. These equations are used below at the same point and along a short stretch
  of a meridian, where the doubles give the same results; they are not equations of
  the double-precision code at antipodal points.
\<close>

lemma hav_central_range: "0 \<le> hav_central lat1 lon1 lat2 lon2 \<and> hav_central lat1 lon1 lat2 lon2 \<le> 1"
proof -
  define f1 where "f1 = lat1 * pi / 180"
  define f2 where "f2 = lat2 * pi / 180"
  define s where "s = (sin ((lat2 - lat1) * pi / 180 / 2))\<^sup>2"
  define t where "t = (sin ((lon2 - lon1) * pi / 180 / 2))\<^sup>2"
  define p where "p = cos f1 * cos f2"
  define q where "q = sin f1 * sin f2"
  have a: "hav_central lat1 lon1 lat2 lon2 = s + p * t"
    by (simp add: hav_central_def s_def t_def p_def f1_def f2_def)
  have t01: "0 \<le> t" "t \<le> 1"
    by (simp_all add: t_def abs_square_le_1)
  have s01: "0 \<le> s" "s \<le> 1"
    by (simp_all add: s_def abs_square_le_1)
  have arg: "(lat2 - lat1) * pi / 180 / 2 = (f2 - f1) / 2"
    by (simp add: f1_def f2_def diff_divide_distrib left_diff_distrib)
  have two: "2 * ((f2 - f1) / 2) = f2 - f1"
    by (simp only: mult_2 field_sum_of_halves)
  have "cos (f2 - f1) = 1 - 2 * s"
    using cos_double_sin [of "(f2 - f1) / 2"] unfolding two s_def arg .
  then have s_eq: "s = (1 - p - q) / 2"
    by (simp add: cos_diff p_def q_def algebra_simps)
  have "cos (f1 + f2) = p - q"
    by (simp add: cos_add p_def q_def)
  then have pq: "- 1 \<le> p - q" "p - q \<le> 1"
    using cos_ge_minus_one [of "f1 + f2"] cos_le_one [of "f1 + f2"] by simp_all
  show ?thesis
  proof (cases "0 \<le> p")
    case True
    then have "0 \<le> p * t" "p * t \<le> p"
      using t01 by (simp_all add: mult_left_le)
    with s01 s_eq pq have "0 \<le> s + p * t" "s + p * t \<le> 1" by argo+
    then show ?thesis by (simp add: a)
  next
    case False
    then have "p * t \<le> 0" "p \<le> p * t"
      using t01 by (simp_all add: mult_le_0_iff mult_left_le_one_le) 
    with s01 s_eq pq have "0 \<le> s + p * t" "s + p * t \<le> 1" by argo+
    then show ?thesis by (simp add: a)
  qed
qed

lemma atan2_sqrt_arcsin:
  assumes "0 \<le> a" "a \<le> 1"
  shows "atan2 (sqrt a) (sqrt (1 - a)) = arcsin (sqrt a)"
proof (cases "a = 1")
  case True
  then show ?thesis by (simp add: atan2_def)
next
  case False
  with assms have lt: "a < 1" by simp
  then have pos: "0 < sqrt (1 - a)" by simp
  have "sqrt a < 1" using lt assms by (simp add: real_sqrt_lt_1_iff)
  moreover have "- 1 < sqrt a" using assms by (smt (verit) real_sqrt_ge_zero)
  ultimately have "arcsin (sqrt a) = arctan (sqrt a / sqrt (1 - (sqrt a)\<^sup>2))"
    using arcsin_arctan [of "sqrt a"] by simp
  with assms pos show ?thesis by (simp add: atan2_def)
qed

lemma hav_js:
  "js_add
     (js_mul (js_sin (js_div (js_div (js_mul (js_sub (Fin lat2) (Fin lat1)) (Fin pi)) (Fin 180)) (Fin 2)))
             (js_sin (js_div (js_div (js_mul (js_sub (Fin lat2) (Fin lat1)) (Fin pi)) (Fin 180)) (Fin 2))))
     (js_mul
       (js_mul
         (js_mul (js_cos (js_div (js_mul (Fin lat1) (Fin pi)) (Fin 180)))
                 (js_cos (js_div (js_mul (Fin lat2) (Fin pi)) (Fin 180))))
         (js_sin (js_div (js_div (js_mul (js_sub (Fin lon2) (Fin lon1)) (Fin pi)) (Fin 180)) (Fin 2))))
       (js_sin (js_div (js_div (js_mul (js_sub (Fin lon2) (Fin lon1)) (Fin pi)) (Fin 180)) (Fin 2))))
   = Fin (hav_central lat1 lon1 lat2 lon2)"
  by (simp add: js_sub_def hav_central_def power2_eq_square)

lemma angle_js:
  assumes "0 \<le> a" "a \<le> 1"
  shows "js_mul (Fin 2) (js_atan2 (js_sqrt (Fin a)) (js_sqrt (js_sub (Fin 1) (Fin a))))
         = Fin (2 * arcsin (sqrt a))"
  using assms by (simp add: js_sub_def atan2_sqrt_arcsin)

lemma central_angle_js:
  "js_mul (Fin 2) (js_atan2 (js_sqrt (Fin (hav_central lat1 lon1 lat2 lon2)))
       (js_sqrt (js_sub (Fin 1) (Fin (hav_central lat1 lon1 lat2 lon2)))))
   = Fin (2 * arcsin (sqrt (hav_central lat1 lon1 lat2 lon2)))"
  using hav_central_range [of lat1 lon1 lat2 lon2]
    angle_js [of "hav_central lat1 lon1 lat2 lon2"] by blast

lemma calculateDistance_estimate_Fin:
  "calculateDistance_estimate (Fin lat1) (Fin lon1) (Fin lat2) (Fin lon2)
   = Fin (round_dp 2 (haversine_spec lat1 lon1 lat2 lon2))"
  unfolding calculateDistance_estimate_def Let_def hav_js central_angle_js
  by (simp add: haversine_spec_def round_dp_def round_def)

lemma calculateDistance_tracking_Fin:
  "calculateDistance_tracking (Fin lat1) (Fin lon1) (Fin lat2) (Fin lon2)
   = Fin (round_dp 1 (haversine_spec lat1 lon1 lat2 lon2))"
  unfolding calculateDistance_tracking_def Let_def hav_js central_angle_js
  by (simp add: haversine_spec_def round_dp_def round_def)

lemma haversine_spec_same: "haversine_spec lat lon lat lon = 0"
  by (simp add: haversine_spec_def hav_central_def)

lemma round_dp_0: "round_dp k 0 = 0"
  by (simp add: round_dp_def)

text \<open>
  A concrete distance: from \<open>(12.5, 77.5)\<close> to \<open>(12.6, 77.5)\<close>, a tenth of a degree
  along a meridian, the haversine distance is \<open>6371 * pi / 1800\<close> km, which is
  11.12 to two decimals and 11.1 to one.
\<close>

lemma cos_taylor:
  fixes x :: real
  assumes "0 < x"
  shows "\<bar>cos x - (1 - x\<^sup>2 / 2 + x ^ 4 / 24 - x ^ 6 / 720 + x ^ 8 / 40320)\<bar> \<le> x ^ 10 / 3628800"
proof -
  obtain t where t: "cos x = (\<Sum>m<10. cos_coeff m * x ^ m) + (cos (t + 1 / 2 * real 10 * pi) / fact 10) * x ^ 10"
    using Maclaurin_cos_expansion2 [OF assms, of 10] by auto
  have set: "{..<10::nat} = {0, 1, 2, 3, 4, 5, 6, 7, 8, 9}"
    by auto
  have c: "cos_coeff (Suc 0) = 0" "cos_coeff 2 = - 1 / 2" "cos_coeff 3 = 0" "cos_coeff 4 = 1 / 24"
    "cos_coeff 5 = 0" "cos_coeff 6 = - 1 / 720" "cos_coeff 7 = 0" "cos_coeff 8 = 1 / 40320"
    "cos_coeff 9 = 0"
    by (simp_all add: cos_coeff_def fact_numeral)
  have s: "(\<Sum>m<10. cos_coeff m * x ^ m) = 1 - x\<^sup>2 / 2 + x ^ 4 / 24 - x ^ 6 / 720 + x ^ 8 / 40320"
    unfolding set by (simp add: c)
  have f: "fact 10 = (3628800::real)"
    by (simp add: fact_numeral)
  have "\<bar>cos (t + 1 / 2 * real 10 * pi) / fact 10 * x ^ 10\<bar> = \<bar>cos (t + 1 / 2 * real 10 * pi)\<bar> * (x ^ 10 / 3628800)"
    using assms by (simp add: f abs_mult)
  also have "\<dots> \<le> 1 * (x ^ 10 / 3628800)"
    using assms by (intro mult_right_mono) simp_all
  finally have "\<bar>cos (t + 1 / 2 * real 10 * pi) / fact 10 * x ^ 10\<bar> \<le> x ^ 10 / 3628800" by simp
  then show ?thesis unfolding t s by simp
qed

lemma pi_bounds: "3.1404 < pi \<and> pi < 3.1431"
proof -
  have lo: "0 < cos (7851 / 5000 :: real)"
  proof -
    have "(0::real) < (1 - (7851 / 5000)\<^sup>2 / 2 + (7851 / 5000) ^ 4 / 24 - (7851 / 5000) ^ 6 / 720 + (7851 / 5000) ^ 8 / 40320) - (7851 / 5000) ^ 10 / 3628800"
      by (simp add: power2_eq_square power_numeral_reduce field_simps)
    then show ?thesis using cos_taylor [of "7851 / 5000"] by linarith
  qed
  have hi: "cos (31431 / 20000 :: real) < 0"
  proof -
    have "(1 - (31431 / 20000)\<^sup>2 / 2 + (31431 / 20000) ^ 4 / 24 - (31431 / 20000) ^ 6 / 720 + (31431 / 20000) ^ 8 / 40320) + (31431 / 20000) ^ 10 / 3628800 < (0::real)"
      by (simp add: power2_eq_square power_numeral_reduce field_simps)
    then show ?thesis using cos_taylor [of "31431 / 20000"] by linarith
  qed
  have "7851 / 5000 < pi / 2"
  proof (rule ccontr)
    assume "\<not> 7851 / 5000 < pi / 2"
    then have "pi / 2 \<le> 7851 / 5000" by simp
    moreover have "(7851 / 5000 :: real) \<le> pi" using pi_ge_two by linarith
    ultimately have "cos (7851 / 5000) \<le> cos (pi / 2)"
      by (intro cos_monotone_0_pi_le) simp_all
    with lo show False by simp
  qed
  moreover have "pi / 2 < 31431 / 20000"
  proof (rule ccontr)
    assume "\<not> pi / 2 < 31431 / 20000"
    then have "0 \<le> cos (31431 / 20000 :: real)"
      by (intro cos_ge_zero) simp_all
    with hi show False by simp
  qed
  ultimately show ?thesis by simp
qed

lemma meridian_haversine: "haversine_spec (25 / 2) (155 / 2) (63 / 5) (155 / 2) = 6371 * pi / 1800"
proof -
  have h: "hav_central (25 / 2) (155 / 2) (63 / 5) (155 / 2) = (sin (pi / 3600))\<^sup>2"
    by (simp add: hav_central_def)
  have "0 \<le> sin (pi / 3600)"
    by (intro sin_ge_zero) simp_all
  then have "arcsin (sqrt ((sin (pi / 3600))\<^sup>2)) = arcsin (sin (pi / 3600))"
    by simp
  also have "\<dots> = pi / 3600"
    by (intro arcsin_sin) simp_all
  finally show ?thesis
    by (simp add: haversine_spec_def h)
qed

lemma meridian_round2: "round_dp 2 (6371 * pi / 1800) = 278 / 25"
proof -
  have "\<lfloor>6371 * pi / 1800 * 10\<^sup>2 + 1 / 2\<rfloor> = 1112"
    using pi_bounds by (intro floor_unique) simp_all
  then show ?thesis by (simp add: round_dp_def round_def)
qed

lemma meridian_round1: "round_dp 1 (6371 * pi / 1800) = 111 / 10"
proof -
  have "\<lfloor>6371 * pi / 1800 * 10 + 1 / 2\<rfloor> = 111"
    using pi_bounds by (intro floor_unique) simp_all
  then show ?thesis by (simp add: round_dp_def round_def)
qed

text \<open>
  C8. The distance from a point to itself is 0, for every latitude in \<open>[-90, 90]\<close> and
  longitude in \<open>[-180, 180]\<close>.
\<close>

theorem calculateDistance_same_point:
  assumes "- 90 \<le> lat" "lat \<le> 90" "- 180 \<le> lon" "lon \<le> 180"
  shows "calculateDistance_estimate (Fin lat) (Fin lon) (Fin lat) (Fin lon) = Fin 0"
  by (simp only: calculateDistance_estimate_Fin haversine_spec_same round_dp_0)

theorem calculateDistance_same_point_witness:
  "(- 90 \<le> (25 / 2::real) \<and> (25 / 2::real) \<le> 90 \<and>
    - 180 \<le> (155 / 2::real) \<and> (155 / 2::real) \<le> 180) \<and>
   calculateDistance_estimate (Fin (25 / 2)) (Fin (155 / 2)) (Fin (25 / 2)) (Fin (155 / 2)) = Fin 0"
  using calculateDistance_same_point [of "25 / 2" "155 / 2"] by simp

text \<open>
  What the four copies share. For all arguments, finite or not, the delivery estimate
  and the nearby-pharmacy search are the same function, and each reported value is a
  rounding of the value the stock-check copy returns: \<open>Math.round\<close> to two decimals
  in the first two, to one decimal in the tracking copy, \<open>toFixed(2)\<close> at the
  stock-check call site. These equations hold of the code in doubles as well, every
  copy performing the same operations in the same order.
\<close>

lemma copies_round_one_distance:
  "calculateDistance_nearby lat1 lon1 lat2 lon2 = calculateDistance_estimate lat1 lon1 lat2 lon2 \<and>
   calculateDistance_estimate lat1 lon1 lat2 lon2
     = js_div (js_round (js_mul (calculateDistance_stock lat1 lon1 lat2 lon2) (Fin 100))) (Fin 100) \<and>
   calculateDistance_tracking lat1 lon1 lat2 lon2
     = js_div (js_round (js_mul (calculateDistance_stock lat1 lon1 lat2 lon2) (Fin 10))) (Fin 10) \<and>
   stock_item_distance lat1 lon1 lat2 lon2 = toFixed2 (calculateDistance_stock lat1 lon1 lat2 lon2)"
  by (simp add: calculateDistance_nearby_def calculateDistance_estimate_def
      calculateDistance_tracking_def calculateDistance_stock_def stock_item_distance_def Let_def)

text \<open>
  Where the distance is lost. From the haversine term \<open>a\<close> on, every copy computes
  \<open>R * (2 * Math.atan2(Math.sqrt(a), Math.sqrt(1 - a)))\<close>. As soon as \<open>a\<close> exceeds 1,
  as it does in doubles for some antipodal points, the second square root is NaN, and
  the NaN passes through every later step of every copy. A NaN is not a non-negative
  number and is not equal to itself.
\<close>

lemma angle_nan_above_one:
  "1 < a \<Longrightarrow>
   js_mul (Fin 6371)
     (js_mul (Fin 2) (js_atan2 (js_sqrt (Fin a)) (js_sqrt (js_sub (Fin 1) (Fin a))))) = NaN"
  by (simp add: js_sub_def)

lemma nan_in_every_copy:
  assumes "calculateDistance_stock lat1 lon1 lat2 lon2 = NaN"
  shows "calculateDistance_estimate lat1 lon1 lat2 lon2 = NaN \<and>
         calculateDistance_nearby lat1 lon1 lat2 lon2 = NaN \<and>
         calculateDistance_tracking lat1 lon1 lat2 lon2 = NaN \<and>
         stock_item_distance lat1 lon1 lat2 lon2 = NaN \<and>
         \<not> nonneg_number (calculateDistance_estimate lat1 lon1 lat2 lon2) \<and>
         \<not> js_eq (calculateDistance_estimate lat1 lon1 lat2 lon2)
                  (calculateDistance_estimate lat2 lon2 lat1 lon1)"
  using copies_round_one_distance [of lat1 lon1 lat2 lon2] assms
  by (simp add: js_eq_def)

section \<open>Properties of the delivery tracking\<close>

text \<open>
  With a live position the percentage comes from \<open>calculateProgress\<close>, which clamps
  it on both sides, and without one the elapsed-time estimate is capped from above
  only. The clamp is stated for the exact arithmetic, in which the two distances are
  numbers; \<open>Math.max\<close> and \<open>Math.min\<close> pass a NaN distance on.
\<close>

lemma calculateProgress_percentage:
  "percentage (calculateProgress (Fin pharmacyLat) (Fin pharmacyLon) (Some (Fin currentLat))
     (Some (Fin currentLon)) (Fin destLat) (Fin destLon))"
proof -
  define total where "total = round_dp 1 (haversine_spec pharmacyLat pharmacyLon destLat destLon)"
  define remaining where "remaining = round_dp 1 (haversine_spec currentLat currentLon destLat destLon)"
  define v where "v = \<lfloor>(total - remaining) / total * 100 + 1 / 2\<rfloor>"
  have d1: "calculateDistance_tracking (Fin pharmacyLat) (Fin pharmacyLon) (Fin destLat) (Fin destLon)
      = Fin total"
    unfolding total_def by (rule calculateDistance_tracking_Fin)
  have d2: "calculateDistance_tracking (Fin currentLat) (Fin currentLon) (Fin destLat) (Fin destLon)
      = Fin remaining"
    unfolding remaining_def by (rule calculateDistance_tracking_Fin)
  have clamp: "percentage (js_max (Fin 0) (js_min (Fin 100) (Fin (of_int v))))"
    by (simp add: js_max_def js_min_def)
  have "total \<noteq> 0 \<Longrightarrow>
      js_round (js_mul (js_div (js_sub (Fin total) (Fin remaining)) (Fin total)) (Fin 100))
      = Fin (of_int v)"
    by (simp add: js_sub_def v_def)
  with clamp show ?thesis
    by (simp add: calculateProgress_def Let_def d1 d2 js_eq_def
        del: js_round.simps js_mul.simps js_div.simps)
qed

lemma pickup_progress_capped_or_nan:
  "js_min (Fin 50) x = NaN \<or> js_le (js_min (Fin 50) x) (Fin 50)"
  by (cases x) (simp_all add: js_min_def)

lemma trackDelivery_pickup:
  assumes dest: "truthy (o_deliveryLatitude order)" "truthy (o_deliveryLongitude order)"
    and live: "\<not> (truthy (d_currentLatitude deliveryRecord) \<and> truthy (d_currentLongitude deliveryRecord))"
    and status: "d_status deliveryRecord = ''picked_up'' \<or> d_status deliveryRecord = ''on_the_way''"
    and dist: "calculateDistance_tracking
                 (to_number (p_latitude pharmacy)) (to_number (p_longitude pharmacy))
                 (to_number (o_deliveryLatitude order)) (to_number (o_deliveryLongitude order))
               = currentDistance"
    and since: "(case d_pickedUpAt deliveryRecord of
                   None \<Rightarrow> Fin 0
                 | Some pickedUpAt \<Rightarrow>
                     if pickedUpAt = [] then Fin 0
                     else js_div (js_sub (Fin (of_int now)) (getTime pickedUpAt)) (Fin 60000))
                = timeSincePickup"
    and iso: "toISOString
                (js_add (Fin (of_int now)) (js_mul (calculateETA currentDistance) (Fin 60000)))
              = Some estimatedDeliveryTime"
  shows "trackDelivery getTime now order deliveryRecord pharmacy
         = Some \<lparr>tracking_currentDistance = Some currentDistance,
                 tracking_estimatedTimeRemaining = Some (calculateETA currentDistance),
                 tracking_progressPercentage =
                   js_min (Fin 50)
                     (js_round (js_mul (js_div timeSincePickup (calculateETA currentDistance)) (Fin 100))),
                 timeline_estimatedDelivery = estimatedDeliveryTime\<rparr>"
proof -
  have l: "(truthy (d_currentLatitude deliveryRecord) \<and> truthy (d_currentLongitude deliveryRecord))
      = False"
    using live by simp
  have s: "d_status deliveryRecord \<noteq> ''assigned''" "d_status deliveryRecord \<noteq> ''accepted''"
    using status by auto
  show ?thesis
    unfolding trackDelivery_def Let_def l dist since iso
    using dest s status by simp
qed

lemma pickup_progress_at_most_50_or_nan:
  assumes dest: "truthy (o_deliveryLatitude order)" "truthy (o_deliveryLongitude order)"
    and live: "\<not> (truthy (d_currentLatitude deliveryRecord) \<and> truthy (d_currentLongitude deliveryRecord))"
    and status: "d_status deliveryRecord = ''picked_up'' \<or> d_status deliveryRecord = ''on_the_way''"
    and result: "trackDelivery getTime now order deliveryRecord pharmacy = Some t"
  shows "tracking_progressPercentage t = NaN \<or> js_le (tracking_progressPercentage t) (Fin 50)"
proof -
  define currentDistance where "currentDistance =
    calculateDistance_tracking
      (to_number (p_latitude pharmacy)) (to_number (p_longitude pharmacy))
      (to_number (o_deliveryLatitude order)) (to_number (o_deliveryLongitude order))"
  define timeSincePickup where "timeSincePickup =
    (case d_pickedUpAt deliveryRecord of
       None \<Rightarrow> Fin 0
     | Some pickedUpAt \<Rightarrow>
         if pickedUpAt = [] then Fin 0
         else js_div (js_sub (Fin (of_int now)) (getTime pickedUpAt)) (Fin 60000))"
  have l: "(truthy (d_currentLatitude deliveryRecord) \<and> truthy (d_currentLongitude deliveryRecord))
      = False"
    using live by simp
  have s: "d_status deliveryRecord \<noteq> ''assigned''" "d_status deliveryRecord \<noteq> ''accepted''"
    using status by auto
  have "trackDelivery getTime now order deliveryRecord pharmacy
      = map_option
          (\<lambda>estimatedDeliveryTime.
             \<lparr>tracking_currentDistance = Some currentDistance,
              tracking_estimatedTimeRemaining = Some (calculateETA currentDistance),
              tracking_progressPercentage =
                js_min (Fin 50)
                  (js_round (js_mul (js_div timeSincePickup (calculateETA currentDistance)) (Fin 100))),
              timeline_estimatedDelivery = estimatedDeliveryTime\<rparr>)
          (toISOString
             (js_add (Fin (of_int now)) (js_mul (calculateETA currentDistance) (Fin 60000))))"
    unfolding trackDelivery_def Let_def l currentDistance_def timeSincePickup_def
    using dest s status by simp
  with result have "tracking_progressPercentage t
      = js_min (Fin 50)
          (js_round (js_mul (js_div timeSincePickup (calculateETA currentDistance)) (Fin 100)))"
    by auto
  then show ?thesis
    by (simp only: pickup_progress_capped_or_nan)
qed

text \<open>
  C1. The progress percentage of a tracked delivery is meant to lie in \<open>[0, 100]\<close>
  whatever the rows hold. The elapsed-time estimate of a picked-up delivery has no
  lower clamp: for the order of \<open>early_pickup_db\<close>, whose \<open>pickedUpAt\<close> lies one
  minute after the clock, the distance is 11.1 km, the remaining time 56 minutes, and
  the response is a 200 whose percentage is \<open>-2\<close>.
\<close>

theorem negative_progress_future_pickup:
  "GET_tracking parseInt_sample getTime_sample 1767225600000 early_pickup_db (Some ''1'') None
   = Json200
       \<lparr>resp_orderId = 1, resp_orderNumber = ''ORD-1'', resp_deliveryStatus = ''picked_up'',
        resp_orderStatus = ''picked_up'',
        resp_destinationLocation = Some (Fin (63 / 5), Fin (155 / 2)),
        resp_tracking =
          \<lparr>tracking_currentDistance = Some (Fin (111 / 10)),
           tracking_estimatedTimeRemaining = Some (Fin 56),
           tracking_progressPercentage = Fin (- 2),
           timeline_estimatedDelivery = TInstant 1767228960000\<rparr>\<rparr> \<and>
   \<not> percentage (Fin (- 2))"
proof -
  let ?order = "hd (orders early_pickup_db)"
  let ?delivery = "hd (delivery early_pickup_db)"
  let ?pharmacy = "hd (pharmacies early_pickup_db)"
  have rows: "lookupRows parseInt_sample early_pickup_db (Some ''1'') None
      = Inr (?order, ?delivery, ?pharmacy)"
    by (simp add: lookupRows_def parseInt_sample_def early_pickup_db_def)
  have dest: "truthy (o_deliveryLatitude ?order)" "truthy (o_deliveryLongitude ?order)"
    by (simp_all add: early_pickup_db_def)
  have live: "\<not> (truthy (d_currentLatitude ?delivery) \<and> truthy (d_currentLongitude ?delivery))"
    by (simp add: early_pickup_db_def)
  have status: "d_status ?delivery = ''picked_up'' \<or> d_status ?delivery = ''on_the_way''"
    by (simp add: early_pickup_db_def)
  have "calculateDistance_tracking (Fin (25 / 2)) (Fin (155 / 2)) (Fin (63 / 5)) (Fin (155 / 2))
      = Fin (111 / 10)"
    by (simp only: calculateDistance_tracking_Fin meridian_haversine meridian_round1)
  then have dist: "calculateDistance_tracking
      (to_number (p_latitude ?pharmacy)) (to_number (p_longitude ?pharmacy))
      (to_number (o_deliveryLatitude ?order)) (to_number (o_deliveryLongitude ?order))
      = Fin (111 / 10)"
    by (simp add: early_pickup_db_def)
  have eta: "calculateETA (Fin (111 / 10)) = Fin 56"
  proof -
    have "\<lceil>111 / 10 * 5 :: real\<rceil> = 56"
      by (intro ceiling_unique) simp_all
    then show ?thesis by (simp add: calculateETA_def)
  qed
  have since: "(case d_pickedUpAt ?delivery of
        None \<Rightarrow> Fin 0
      | Some pickedUpAt \<Rightarrow>
          if pickedUpAt = [] then Fin 0
          else js_div (js_sub (Fin (of_int 1767225600000)) (getTime_sample pickedUpAt)) (Fin 60000))
      = Fin (- 1)"
    by (simp add: early_pickup_db_def getTime_sample_def js_sub_def)
  have iso: "toISOString
      (js_add (Fin (of_int 1767225600000)) (js_mul (calculateETA (Fin (111 / 10))) (Fin 60000)))
      = Some (TInstant 1767228960000)"
    by (simp add: eta)
  have progress:
    "js_min (Fin 50) (js_round (js_mul (js_div (Fin (- 1)) (Fin 56)) (Fin 100))) = Fin (- 2)"
  proof -
    have "\<lfloor>- 1 / 56 * 100 + 1 / 2 :: real\<rfloor> = - 2"
      by (intro floor_unique) simp_all
    then show ?thesis by (simp add: js_min_def)
  qed
  have "trackDelivery getTime_sample 1767225600000 ?order ?delivery ?pharmacy
      = Some \<lparr>tracking_currentDistance = Some (Fin (111 / 10)),
           tracking_estimatedTimeRemaining = Some (Fin 56),
           tracking_progressPercentage = Fin (- 2),
           timeline_estimatedDelivery = TInstant 1767228960000\<rparr>"
    using trackDelivery_pickup [OF dest live status dist since iso] by (simp only: eta progress)
  with rows show ?thesis
    by (simp add: GET_tracking_def early_pickup_db_def)
qed

text \<open>
  C2. A delivery with status \<open>delivered\<close> is meant to report a percentage of 100, a
  remaining time of 0 and a distance of 0. The handler reaches its \<open>delivered\<close> arm
  only after the test for a live position, and the delivery row keeps its current
  coordinates when the status becomes \<open>delivered\<close>: for the order of
  \<open>delivered_live_db\<close>, whose last recorded position is the pharmacy's, the response
  is a 200 with a percentage of 0, a distance of 11.1 km and a remaining time of 56
  minutes.
\<close>

theorem delivered_with_live_position_reports_zero:
  "GET_tracking parseInt_sample getTime_sample 1767225600000 delivered_live_db (Some ''1'') None
   = Json200
       \<lparr>resp_orderId = 1, resp_orderNumber = ''ORD-1'', resp_deliveryStatus = ''delivered'',
        resp_orderStatus = ''delivered'',
        resp_destinationLocation = Some (Fin (63 / 5), Fin (155 / 2)),
        resp_tracking =
          \<lparr>tracking_currentDistance = Some (Fin (111 / 10)),
           tracking_estimatedTimeRemaining = Some (Fin 56),
           tracking_progressPercentage = Fin 0,
           timeline_estimatedDelivery = TInstant 1767228960000\<rparr>\<rparr>"
proof -
  have dist: "calculateDistance_tracking (Fin (25 / 2)) (Fin (155 / 2)) (Fin (63 / 5)) (Fin (155 / 2))
      = Fin (111 / 10)"
    by (simp only: calculateDistance_tracking_Fin meridian_haversine meridian_round1)
  have eta: "calculateETA (Fin (111 / 10)) = Fin 56"
  proof -
    have "\<lceil>111 / 10 * 5 :: real\<rceil> = 56"
      by (intro ceiling_unique) simp_all
    then show ?thesis by (simp add: calculateETA_def)
  qed
  have progress: "calculateProgress (Fin (25 / 2)) (Fin (155 / 2)) (Some (Fin (25 / 2)))
      (Some (Fin (155 / 2))) (Fin (63 / 5)) (Fin (155 / 2)) = Fin 0"
    by (simp add: calculateProgress_def Let_def dist js_eq_def js_sub_def js_min_def js_max_def)
  show ?thesis
    by (simp add: GET_tracking_def lookupRows_def parseInt_sample_def delivered_live_db_def
        trackDelivery_def Let_def dist eta progress)
qed

text \<open>
  The \<open>delivered\<close> arm itself does what its comment says. It is reached when the
  order has destination coordinates and the delivery row has no live position; an
  order without destination coordinates gets the defaults, whatever its status.
\<close>

lemma delivered_progress_complete:
  assumes "lookupRows parseInt db orderId orderNumber = Inr (order, deliveryRecord, pharmacy)"
    and "d_status deliveryRecord = ''delivered''"
    and "truthy (o_deliveryLatitude order)" "truthy (o_deliveryLongitude order)"
    and "\<not> (truthy (d_currentLatitude deliveryRecord) \<and> truthy (d_currentLongitude deliveryRecord))"
  shows "GET_tracking parseInt getTime now db orderId orderNumber
   = Json200
       \<lparr>resp_orderId = o_id order, resp_orderNumber = o_orderNumber order,
        resp_deliveryStatus = ''delivered'', resp_orderStatus = o_status order,
        resp_destinationLocation =
          Some (to_number (o_deliveryLatitude order), to_number (o_deliveryLongitude order)),
        resp_tracking =
          \<lparr>tracking_currentDistance = Some (Fin 0),
           tracking_estimatedTimeRemaining = Some (Fin 0),
           tracking_progressPercentage = Fin 100,
           timeline_estimatedDelivery = stored_time (d_deliveredAt deliveryRecord)\<rparr>\<rparr>"
proof -
  have live: "(truthy (d_currentLatitude deliveryRecord) \<and> truthy (d_currentLongitude deliveryRecord))
      = False"
    using assms(5) by simp
  have "trackDelivery getTime now order deliveryRecord pharmacy
      = Some \<lparr>tracking_currentDistance = Some (Fin 0),
           tracking_estimatedTimeRemaining = Some (Fin 0),
           tracking_progressPercentage = Fin 100,
           timeline_estimatedDelivery = stored_time (d_deliveredAt deliveryRecord)\<rparr>"
    unfolding trackDelivery_def Let_def live using assms(2-4) by simp
  with assms(1-4) show ?thesis
    by (simp add: GET_tracking_def)
qed

lemma delivered_without_destination:
  "GET_tracking parseInt_sample getTime_sample 1767225600000 (delivered_db (None, None)) (Some ''1'') None
   = Json200
       \<lparr>resp_orderId = 1, resp_orderNumber = ''ORD-1'', resp_deliveryStatus = ''delivered'',
        resp_orderStatus = ''delivered'',
        resp_destinationLocation = None,
        resp_tracking =
          \<lparr>tracking_currentDistance = None,
           tracking_estimatedTimeRemaining = None,
           tracking_progressPercentage = Fin 0,
           timeline_estimatedDelivery = TNull\<rparr>\<rparr>"
  by (simp add: GET_tracking_def lookupRows_def parseInt_sample_def delivered_db_def
      trackDelivery_def Let_def)

text \<open>
  C3. Without a live position the percentage of a picked-up or on-the-way delivery is
  meant to be at most 50. The quotient of the elapsed time by the remaining time is
  not guarded against \<open>0 / 0\<close>: for the order of \<open>doorstep_db\<close>, whose destination is
  at the pharmacy's coordinates and whose \<open>pickedUpAt\<close> is null, the percentage is NaN,
  which is not at most 50.
\<close>

theorem pickup_progress_nan_at_zero_distance:
  "GET_tracking parseInt_sample getTime_sample 1767225600000 doorstep_db (Some ''1'') None
   = Json200
       \<lparr>resp_orderId = 1, resp_orderNumber = ''ORD-1'', resp_deliveryStatus = ''on_the_way'',
        resp_orderStatus = ''out_for_delivery'',
        resp_destinationLocation = Some (Fin (25 / 2), Fin (155 / 2)),
        resp_tracking =
          \<lparr>tracking_currentDistance = Some (Fin 0),
           tracking_estimatedTimeRemaining = Some (Fin 0),
           tracking_progressPercentage = NaN,
           timeline_estimatedDelivery = TInstant 1767225600000\<rparr>\<rparr> \<and>
   \<not> js_le NaN (Fin 50)"
  by (simp add: GET_tracking_def lookupRows_def parseInt_sample_def doorstep_db_def
      trackDelivery_def Let_def calculateDistance_tracking_Fin haversine_spec_same round_dp_0
      calculateETA_def js_min_def)

section \<open>Properties of the delivery estimate\<close>

lemma not_truthy_zero_or_null:
  "c = Some (Fin 0) \<or> c = None \<Longrightarrow> \<not> truthy c"
  by auto

text \<open>
  C10. When the request passes the handler's validation and the pharmacy row exists, a
  pharmacy latitude or longitude that is 0 (or null) makes the handler answer 400 with
  code \<open>PHARMACY_COORDINATES_MISSING\<close> instead of an estimate, although 0 is a
  latitude and a longitude that the same handler accepts for the delivery point.
\<close>

theorem estimate_rejects_zero_pharmacy_coordinates:
  assumes id_given: "truthy_val (body_pharmacyId body)"
    and lat_given: "body_deliveryLatitude body \<noteq> JUndefined" "body_deliveryLatitude body \<noteq> JNull"
    and lon_given: "body_deliveryLongitude body \<noteq> JUndefined" "body_deliveryLongitude body \<noteq> JNull"
    and id_parsed: "parseInt (body_pharmacyId body) = Some parsedPharmacyId"
    and lat_valid: "parseFloat (body_deliveryLatitude body) \<noteq> NaN"
      "validateLatitude (parseFloat (body_deliveryLatitude body))"
    and lon_valid: "parseFloat (body_deliveryLongitude body) \<noteq> NaN"
      "validateLongitude (parseFloat (body_deliveryLongitude body))"
    and found: "filter (\<lambda>r. p_id r = parsedPharmacyId) pharmacies_table = pharmacyData # others"
    and zero: "p_latitude pharmacyData = Some (Fin 0) \<or> p_latitude pharmacyData = None \<or>
      p_longitude pharmacyData = Some (Fin 0) \<or> p_longitude pharmacyData = None"
  shows "POST_estimate parseInt parseFloat now pharmacies_table (Some body)
           = JsonError 400 (Some ''PHARMACY_COORDINATES_MISSING'') \<and>
         validateLatitude (Fin 0) \<and> validateLongitude (Fin 0)"
proof -
  have falsy: "(\<not> truthy (p_latitude pharmacyData) \<or> \<not> truthy (p_longitude pharmacyData)) = True"
    using zero not_truthy_zero_or_null by blast
  have "POST_estimate parseInt parseFloat now pharmacies_table (Some body)
      = JsonError 400 (Some ''PHARMACY_COORDINATES_MISSING'')"
    unfolding POST_estimate_def Let_def
    using id_given lat_given lon_given id_parsed lat_valid lon_valid found falsy
    by simp
  moreover have "validateLatitude (Fin 0) \<and> validateLongitude (Fin 0)"
    by (simp add: validateLatitude_def validateLongitude_def js_ge_def)
  ultimately show ?thesis by simp
qed

theorem estimate_rejects_zero_pharmacy_coordinates_witness:
  "POST_estimate parseInt_number parseFloat_number 1767225600000 [equator_pharmacy]
     (Some equator_request)
   = JsonError 400 (Some ''PHARMACY_COORDINATES_MISSING'') \<and>
   p_latitude equator_pharmacy = Some (Fin 0) \<and>
   validateLatitude (Fin 0) \<and> validateLongitude (Fin 0)"
proof -
  have id_given: "truthy_val (body_pharmacyId equator_request)"
    by (simp add: equator_request_def)
  have lat_given: "body_deliveryLatitude equator_request \<noteq> JUndefined"
    "body_deliveryLatitude equator_request \<noteq> JNull"
    by (simp_all add: equator_request_def)
  have lon_given: "body_deliveryLongitude equator_request \<noteq> JUndefined"
    "body_deliveryLongitude equator_request \<noteq> JNull"
    by (simp_all add: equator_request_def)
  have id_parsed: "parseInt_number (body_pharmacyId equator_request) = Some 7"
    by (simp add: equator_request_def parseInt_number_def)
  have lat_valid: "parseFloat_number (body_deliveryLatitude equator_request) \<noteq> NaN"
    "validateLatitude (parseFloat_number (body_deliveryLatitude equator_request))"
    by (simp_all add: equator_request_def parseFloat_number_def validateLatitude_def js_ge_def)
  have lon_valid: "parseFloat_number (body_deliveryLongitude equator_request) \<noteq> NaN"
    "validateLongitude (parseFloat_number (body_deliveryLongitude equator_request))"
    by (simp_all add: equator_request_def parseFloat_number_def validateLongitude_def js_ge_def)
  have found: "filter (\<lambda>r. p_id r = 7) [equator_pharmacy] = equator_pharmacy # []"
    by (simp add: equator_pharmacy_def)
  have zero: "p_latitude equator_pharmacy = Some (Fin 0) \<or> p_latitude equator_pharmacy = None \<or>
      p_longitude equator_pharmacy = Some (Fin 0) \<or> p_longitude equator_pharmacy = None"
    by (simp add: equator_pharmacy_def)
  have "p_latitude equator_pharmacy = Some (Fin 0)"
    by (simp add: equator_pharmacy_def)
  with estimate_rejects_zero_pharmacy_coordinates
    [where body = equator_request and parseInt = parseInt_number
      and parseFloat = parseFloat_number and pharmacies_table = "[equator_pharmacy]"
      and pharmacyData = equator_pharmacy and others = "[]" and parsedPharmacyId = 7
      and now = 1767225600000,
      OF id_given lat_given lon_given id_parsed lat_valid lon_valid found zero]
  show ?thesis by simp
qed

text \<open>
  For contrast, the same kind of request against a pharmacy with non-zero coordinates
  is answered with an estimate: 11.12 km, 15 + 60 + 5 minutes and a fee of 7.50.
\<close>

lemma estimate_corner_pharmacy:
  "POST_estimate parseInt_number parseFloat_number 1767225600000 [corner_pharmacy]
     (Some corner_request)
   = Json200
       \<lparr>est_pharmacyId = 7, est_pharmacyName = ''Corner Pharmacy'',
        est_pharmacyAddress = ''Main Street 1'',
        est_pharmacyLocation = (Some (Fin (25 / 2)), Some (Fin (155 / 2))),
        est_deliveryLocation = (Fin (63 / 5), Fin (155 / 2)),
        est_distance = Fin (278 / 25),
        est_estimatedDeliveryTime = Fin 80,
        est_preparationTime = Fin 15,
        est_travelTime = Fin 60,
        est_bufferTime = Fin 5,
        est_deliveryFee = Fin (15 / 2),
        est_estimatedDeliveryAt = TInstant 1767230400000\<rparr>"
proof -
  have d: "calculateDistance_estimate (Fin (25 / 2)) (Fin (155 / 2)) (Fin (63 / 5)) (Fin (155 / 2))
      = Fin (278 / 25)"
    by (simp only: calculateDistance_estimate_Fin meridian_haversine meridian_round2)
  show ?thesis
    by (simp add: POST_estimate_def Let_def corner_pharmacy_def corner_request_def
        parseInt_number_def parseFloat_number_def validateLatitude_def validateLongitude_def
        js_ge_def d calculateTravelTime_def calculateDeliveryFee_def)
qed

end
